theory Spec2Isabelle
  imports Main "HOL-Library.Word"
begin

section \<open>JavaScript values used by the stream\<close>

text \<open>
  The stream of \<^verbatim>\<open>src/FileStream.js\<close> (and of its single-class version
  \<^verbatim>\<open>src/unnamed/part_000\<close>) keeps numbers, \<^verbatim>\<open>undefined\<close>, \<^verbatim>\<open>null\<close> and blobs
  in its fields. Numbers are modelled as the integers together with \<^verbatim>\<open>NaN\<close> and the two
  infinities: every number the code computes from integer arguments is one of these
  (\<^verbatim>\<open>Math.ceil\<close> is applied at once to the only quotient). Integers are ideal (no
  rounding above \<open>2^53\<close>) and \<open>-0\<close> is not told apart from \<open>0\<close>.
\<close>

type_synonym byte = "8 word"

datatype jsval =
    Undefined
  | Null
  | NaN
  | PosInf
  | NegInf
  | Num int
  | Blob "byte list"

datatype error =
    TypeError
  | RangeError
  | InvalidBlob
  | SeekInvalidOffset
  | ChunkIndexInvalidOffset
  | ChunkBeyondBounds jsval
  | ReadError jsval
  | InvalidArgError
  | InvalidArguments

text \<open>\<^verbatim>\<open>ToNumber\<close>: a Blob is an object whose primitive is the string
  \<^verbatim>\<open>"[object Blob]"\<close>, which is not a numeral.\<close>

fun ToNumber :: "jsval \<Rightarrow> jsval" where
  "ToNumber Undefined = NaN"
| "ToNumber Null = Num 0"
| "ToNumber (Blob b) = NaN"
| "ToNumber v = v"

fun gt_num :: "jsval \<Rightarrow> jsval \<Rightarrow> bool" where
  "gt_num (Num a) (Num b) = (b < a)"
| "gt_num PosInf (Num b) = True"
| "gt_num PosInf NegInf = True"
| "gt_num (Num a) NegInf = True"
| "gt_num x y = False"

definition js_gt :: "jsval \<Rightarrow> jsval \<Rightarrow> bool" where
  \<comment> \<open>\<^verbatim>\<open>a > b\<close>: false as soon as one side is \<^verbatim>\<open>NaN\<close>\<close>
  "js_gt a b = gt_num (ToNumber a) (ToNumber b)"

fun sign_num :: "jsval \<Rightarrow> int" where
  "sign_num PosInf = 1"
| "sign_num NegInf = - 1"
| "sign_num (Num a) = sgn a"
| "sign_num v = 0"

fun mul_num :: "jsval \<Rightarrow> jsval \<Rightarrow> jsval" where
  "mul_num NaN y = NaN"
| "mul_num x NaN = NaN"
| "mul_num (Num a) (Num b) = Num (a * b)"
| "mul_num x y =
     (if sign_num x * sign_num y = 0 then NaN
      else if 0 < sign_num x * sign_num y then PosInf else NegInf)"

definition js_mul :: "jsval \<Rightarrow> jsval \<Rightarrow> jsval" where
  "js_mul a b = mul_num (ToNumber a) (ToNumber b)"

fun add_num :: "jsval \<Rightarrow> jsval \<Rightarrow> jsval" where
  "add_num NaN y = NaN"
| "add_num x NaN = NaN"
| "add_num (Num a) (Num b) = Num (a + b)"
| "add_num PosInf NegInf = NaN"
| "add_num NegInf PosInf = NaN"
| "add_num (Num a) y = y"
| "add_num x y = x"

definition js_add :: "jsval \<Rightarrow> jsval \<Rightarrow> jsval" where
  \<comment> \<open>\<^verbatim>\<open>a + b\<close> for operands that are \<^verbatim>\<open>undefined\<close>, \<^verbatim>\<open>null\<close> or numbers\<close>
  "js_add a b = add_num (ToNumber a) (ToNumber b)"

definition js_inc :: "jsval \<Rightarrow> jsval" where
  \<comment> \<open>the value stored by \<^verbatim>\<open>x++\<close> and \<^verbatim>\<open>++x\<close>\<close>
  "js_inc v = add_num (ToNumber v) (Num 1)"

definition strict_eq :: "jsval \<Rightarrow> jsval \<Rightarrow> bool" where
  \<comment> \<open>\<^verbatim>\<open>a === b\<close> where at least one side is a primitive value\<close>
  "strict_eq a b = (a = b \<and> a \<noteq> NaN)"

definition ceil_div :: "int \<Rightarrow> int \<Rightarrow> jsval" where
  \<comment> \<open>\<^verbatim>\<open>Math.ceil(a / c)\<close>\<close>
  "ceil_div a c =
     (if c = 0 then (if a = 0 then NaN else if 0 < a then PosInf else NegInf)
      else Num (- ((- a) div c)))"

definition js_rem :: "int \<Rightarrow> int \<Rightarrow> jsval" where
  \<comment> \<open>\<^verbatim>\<open>a % c\<close>: the remainder takes the sign of the dividend\<close>
  "js_rem a c = (if c = 0 then NaN else Num (sgn a * (\<bar>a\<bar> mod \<bar>c\<bar>)))"

definition array_get :: "jsval list \<Rightarrow> jsval \<Rightarrow> jsval" where
  \<comment> \<open>\<^verbatim>\<open>xs[k]\<close> on an Array: only an index in range names an element\<close>
  "array_get xs k =
     (case k of
        Num n \<Rightarrow> if 0 \<le> n \<and> n < int (length xs) then xs ! nat n else Undefined
      | _ \<Rightarrow> Undefined)"

definition u8_get :: "byte list \<Rightarrow> jsval \<Rightarrow> jsval" where
  \<comment> \<open>\<^verbatim>\<open>cache[k]\<close> on a Uint8Array\<close>
  "u8_get c k =
     (case k of
        Num n \<Rightarrow> if 0 \<le> n \<and> n < int (length c) then Num (uint (c ! nat n)) else Undefined
      | _ \<Rightarrow> Undefined)"

definition new_Array :: "jsval \<Rightarrow> nat option" where
  \<comment> \<open>\<^verbatim>\<open>new Array(len)\<close> for a number: \<open>None\<close> is the RangeError of an invalid length\<close>
  "new_Array len =
     (case len of
        Num n \<Rightarrow> if 0 \<le> n \<and> n < 2 ^ 32 then Some (nat n) else None
      | _ \<Rightarrow> None)"

definition blob_slice :: "byte list \<Rightarrow> int \<Rightarrow> int \<Rightarrow> byte list" where
  \<comment> \<open>\<^verbatim>\<open>Blob.slice(start, end)\<close>: negative arguments count from the end, both are clamped\<close>
  "blob_slice b start end' =
     (let n = int (length b);
          rs = (if start < 0 then max (n + start) 0 else min start n);
          re = (if end' < 0 then max (n + end') 0 else min end' n)
      in take (nat (max (re - rs) 0)) (drop (nat rs) b))"

section \<open>The stream object\<close>

text \<open>
  The fields of a \<^verbatim>\<open>FileStream\<close> instance. \<open>config_chunkSize\<close> is
  \<^verbatim>\<open>this.config.chunkSize\<close>; the object has no property \<^verbatim>\<open>chunkSize\<close> or
  \<^verbatim>\<open>offset\<close> of its own. A field that holds \<^verbatim>\<open>null\<close> or has not been assigned
  yet is \<open>None\<close>. \<open>pending\<close> is the only part that is not a field: the reads a
  \<^verbatim>\<open>FileReader\<close> has started and whose \<^verbatim>\<open>load\<close> event has not been delivered.
  \<^verbatim>\<open>fileName\<close> and the other configuration entries are display data and are left out.

  The constructor of \<^verbatim>\<open>FileStream.js\<close> means to install the methods of the classes
  \<^verbatim>\<open>GenericRead\<close> and \<^verbatim>\<open>TextRead\<close> on the instance. It reads them as
  \<^verbatim>\<open>GenericRead.open\<close>, \<^verbatim>\<open>GenericRead.r\<close> and so on, where they live on the
  prototypes, so on an instance it has built these properties hold \<^verbatim>\<open>undefined\<close> and a
  call of one raises a TypeError before its body runs. The definitions below are the
  bodies of the methods, each with the stream as the receiver \<^verbatim>\<open>this\<close> and with the
  calls of \<^verbatim>\<open>this.readChunk\<close>, \<^verbatim>\<open>this.sliceChunk\<close> and \<^verbatim>\<open>this.r\<close> inside
  them bound to the bodies of these methods: a function from the stream before the call
  to the result, which is a value or the exception raised, and the stream after it. An
  exception keeps the assignments made before it.
\<close>

record stream =
  config_chunkSize :: int
  position :: jsval
  chunk :: jsval
  closed :: bool
  cache :: "byte list option"
  blob :: "byte list option"
  lastChunk :: jsval
  chunks :: "jsval list option"
  currentLine :: jsval
  pending :: "byte list list"

definition new_stream :: "int \<Rightarrow> stream" where
  \<comment> \<open>\<^verbatim>\<open>new FileStream({chunkSize: c})\<close> of \<^verbatim>\<open>FileStream.js\<close>\<close>
  "new_stream c =
     \<lparr>config_chunkSize = c, position = Num 0, chunk = Num 0, closed = True,
      cache = None, blob = None, lastChunk = Undefined, chunks = None,
      currentLine = Undefined, pending = []\<rparr>"

definition tell :: "stream \<Rightarrow> jsval" where
  \<comment> \<open>\<^verbatim>\<open>this.offset + (this.chunkSize * this.chunk)\<close>, both properties absent\<close>
  "tell s = js_add Undefined (js_mul Undefined (chunk s))"

definition EOF :: "stream \<Rightarrow> error + bool" where
  \<comment> \<open>\<^verbatim>\<open>this.tell() > this.blob.size\<close>\<close>
  "EOF s =
     (case blob s of
        None \<Rightarrow> Inl TypeError
      | Some b \<Rightarrow> Inr (js_gt (tell s) (Num (int (length b)))))"

definition currentByte :: "stream \<Rightarrow> error + jsval" where
  \<comment> \<open>\<^verbatim>\<open>this.cache[this.position]\<close>\<close>
  "currentByte s =
     (case cache s of
        None \<Rightarrow> Inl TypeError
      | Some c \<Rightarrow> Inr (u8_get c (position s)))"

definition sliceChunk :: "stream \<Rightarrow> int \<Rightarrow> error + byte list" where
  "sliceChunk s index =
     (if js_gt (Num index) (lastChunk s) then Inl (ChunkBeyondBounds (Num index))
      else case blob s of
        None \<Rightarrow> Inl TypeError
      | Some b \<Rightarrow>
          (let offset = index * config_chunkSize s
           in Inr (blob_slice b offset (config_chunkSize s + offset))))"

definition readAsArrayBuffer :: "jsval \<Rightarrow> error + byte list" where
  \<comment> \<open>\<^verbatim>\<open>FileReader.readAsArrayBuffer(v)\<close>: a TypeError unless \<open>v\<close> is a Blob, and
      else the read of its bytes is started\<close>
  "readAsArrayBuffer v = (case v of Blob b \<Rightarrow> Inr b | _ \<Rightarrow> Inl TypeError)"

definition readChunk :: "stream \<Rightarrow> jsval \<Rightarrow> (error + unit) \<times> stream" where
  "readChunk s index =
     (if js_gt index (lastChunk s) then (Inl (ChunkBeyondBounds index), s)
      else
        let s1 = s\<lparr>chunk := index, position := Num 0\<rparr> in
        case chunks s1 of
          None \<Rightarrow> (Inl TypeError, s1)
        | Some cs \<Rightarrow>
            (case readAsArrayBuffer (array_get cs (chunk s1)) of
               Inl e \<Rightarrow> (Inl e, s1)
             | Inr b \<Rightarrow> (Inr (), s1\<lparr>pending := pending s1 @ [b]\<rparr>)))"

definition onload :: "jsval \<Rightarrow> stream \<Rightarrow> bool \<Rightarrow> byte list \<Rightarrow> error + stream" where
  \<comment> \<open>the callback of \<^verbatim>\<open>readChunk(index)\<close>; \<open>no_error\<close> is
      \<^verbatim>\<open>event.target.error === null\<close>, \<open>result\<close> is \<^verbatim>\<open>event.target.result\<close>\<close>
  "onload index s no_error result =
     (if no_error then Inr (s\<lparr>cache := Some result\<rparr>) else Inl (ReadError index))"

text \<open>
  \<^verbatim>\<open>open(blob)\<close>, called \<open>open_blob\<close> because \<open>open\<close> is a keyword of
  Isabelle. The array \<^verbatim>\<open>this.chunks\<close> is filled with the number 0; the
  \<^verbatim>\<open>map\<close> over it calls \<^verbatim>\<open>sliceChunk\<close> for every index in turn and its result,
  a new array, is dropped, so only the first exception of \<^verbatim>\<open>sliceChunk\<close> would be seen.
\<close>

fun first_error :: "(error + 'a) list \<Rightarrow> error option" where
  "first_error [] = None"
| "first_error (Inl e # xs) = Some e"
| "first_error (Inr v # xs) = first_error xs"

definition open_blob :: "stream \<Rightarrow> jsval \<Rightarrow> (error + unit) \<times> stream" where
  "open_blob s v =
     (case v of
        Blob b \<Rightarrow>
          (let s1 = s\<lparr>cache := None, blob := Some b,
                      lastChunk := ceil_div (int (length b)) (config_chunkSize s)\<rparr>
           in case new_Array (lastChunk s1) of
                None \<Rightarrow> (Inl RangeError, s1)
              | Some n \<Rightarrow>
                  (let s2 = s1\<lparr>chunks := Some (replicate n (Num 0))\<rparr>
                   in case first_error (map (\<lambda>i. sliceChunk s2 (int i)) [0..<n]) of
                        Some e \<Rightarrow> (Inl e, s2)
                      | None \<Rightarrow>
                          (case readChunk s2 (Num 0) of
                             (Inl e, s3) \<Rightarrow> (Inl e, s3)
                           | (Inr u, s3) \<Rightarrow> (Inr (), s3\<lparr>closed := False\<rparr>))))
      | _ \<Rightarrow> (Inl InvalidBlob, s))"

definition newChunkIndex :: "stream \<Rightarrow> int \<Rightarrow> error + jsval" where
  "newChunkIndex s offset =
     (case blob s of
        None \<Rightarrow> Inl TypeError
      | Some b \<Rightarrow>
          if int (length b) < offset then Inl ChunkIndexInvalidOffset
          else Inr (ceil_div offset (config_chunkSize s)))"

definition seek :: "stream \<Rightarrow> int \<Rightarrow> (error + unit) \<times> stream" where
  "seek s offset =
     (case blob s of
        None \<Rightarrow> (Inl TypeError, s)
      | Some b \<Rightarrow>
          if int (length b) < offset \<or> offset < 0 then (Inl SeekInvalidOffset, s)
          else
            (case newChunkIndex s offset of
               Inl e \<Rightarrow> (Inl e, s)
             | Inr c \<Rightarrow>
                 (case (if strict_eq c (chunk s) then (Inr (), s) else readChunk s c) of
                    (Inl e, s1) \<Rightarrow> (Inl e, s1)
                  | (Inr u, s1) \<Rightarrow>
                      (Inr (), s1\<lparr>position := js_rem offset (config_chunkSize s1)\<rparr>))))"

definition next_chunk_entry :: "stream \<Rightarrow> error + jsval" where
  \<comment> \<open>\<^verbatim>\<open>this.chunks[this.chunk + 1]\<close>. For a chunk field that is not a number or
      \<^verbatim>\<open>null\<close> the sum is \<^verbatim>\<open>NaN\<close>, an infinity or a string, none of which names an
      element.\<close>
  "next_chunk_entry s =
     (case chunks s of
        None \<Rightarrow> Inl TypeError
      | Some cs \<Rightarrow>
          Inr (case chunk s of
                 Num n \<Rightarrow> array_get cs (Num (n + 1))
               | Null \<Rightarrow> array_get cs (Num 1)
               | _ \<Rightarrow> Undefined))"

definition fetch_inc :: "stream \<Rightarrow> (error + jsval) \<times> stream" where
  \<comment> \<open>\<^verbatim>\<open>this.cache[this.position++]\<close>: the increment is done before the element is
      read, so it also happens when the cache is \<^verbatim>\<open>null\<close>\<close>
  "fetch_inc s =
     (let s' = s\<lparr>position := js_inc (position s)\<rparr>
      in case cache s of
           None \<Rightarrow> (Inl TypeError, s')
         | Some c \<Rightarrow> (Inr (u8_get c (ToNumber (position s))), s'))"

definition r :: "stream \<Rightarrow> (error + jsval) \<times> stream" where
  \<comment> \<open>\<^verbatim>\<open>GenericRead.r\<close>; the value \<open>Null\<close> is the end-of-file sentinel\<close>
  "r s =
     (case EOF s of
        Inl e \<Rightarrow> (Inl e, s)
      | Inr True \<Rightarrow> (Inr Null, s)
      | Inr False \<Rightarrow>
          (case cache s of
             None \<Rightarrow> (Inl TypeError, s)
           | Some c \<Rightarrow>
               if strict_eq (position s) (Num (int (length c))) then
                 (case next_chunk_entry s of
                    Inl e \<Rightarrow> (Inl e, s)
                  | Inr index \<Rightarrow>
                      (case readChunk s index of
                         (Inl e, s1) \<Rightarrow> (Inl e, s1)
                       | (Inr u, s1) \<Rightarrow> fetch_inc s1))
               else fetch_inc s))"

subsection \<open>Reading into an array\<close>

text \<open>
  An Array argument is the finite map of its integer-keyed properties: a store at a key
  beyond the length extends the array, and a store at a negative key adds a property.
  \<^verbatim>\<open>isArray\<close> is a free identifier of \<^verbatim>\<open>FileStream.js\<close> that no file of the
  repository defines; it is a parameter of the model. \<^verbatim>\<open>this.invalidArgError\<close> is never
  assigned, so the value thrown for a non-array is \<^verbatim>\<open>undefined\<close>; the model calls this
  exception \<open>InvalidArgError\<close>.
\<close>

type_synonym jsarray = "int \<rightharpoonup> jsval"

definition array_of :: "jsval list \<Rightarrow> jsarray" where
  \<comment> \<open>the Array with the elements \<open>xs\<close>; its capacity is \<open>length xs\<close>\<close>
  "array_of xs = (\<lambda>k. if 0 \<le> k \<and> k < int (length xs) then Some (xs ! nat k) else None)"

definition not_nullish :: "jsval \<Rightarrow> bool" where
  \<comment> \<open>\<^verbatim>\<open>v != null\<close>\<close>
  "not_nullish v = (v \<noteq> Null \<and> v \<noteq> Undefined)"

function read_loop ::
  "stream \<Rightarrow> jsarray \<Rightarrow> int \<Rightarrow> int \<Rightarrow> int \<Rightarrow> (error + int) \<times> stream \<times> jsarray" where
  "read_loop s array offset len bytesRead =
     (if bytesRead < len then
        (case currentByte s of
           Inl e \<Rightarrow> (Inl e, s, array)
         | Inr b \<Rightarrow>
             if not_nullish b then
               (case r s of
                  (Inl e, s') \<Rightarrow> (Inl e, s', array)
                | (Inr v, s') \<Rightarrow>
                    read_loop s' (array(bytesRead + offset \<mapsto> v)) offset len (bytesRead + 1))
             else (Inr bytesRead, s, array))
      else (Inr bytesRead, s, array))"
  by pat_completeness auto
termination
  by (relation "measure (\<lambda>(s, array, offset, len, bytesRead). nat (len - bytesRead))") auto

declare read_loop.simps [simp del]

definition read3 ::
  "(jsarray \<Rightarrow> bool) \<Rightarrow> stream \<Rightarrow> jsarray \<Rightarrow> int \<Rightarrow> int \<Rightarrow> (error + int) \<times> stream \<times> jsarray" where
  \<comment> \<open>\<^verbatim>\<open>GenericRead.read(array, offset, len)\<close>\<close>
  "read3 isArray s array offset len =
     (if isArray array then read_loop s array offset len 0
      else (Inl InvalidArgError, s, array))"

subsection \<open>Reading lines\<close>

text \<open>
  The loop of \<^verbatim>\<open>readLine\<close> ends only on a line feed, on the sentinel or on an exception,
  so it is given fuel: \<open>None\<close> means that the fuel ran out. Bytes are below 256, so the
  UTF-16 code unit of \<^verbatim>\<open>String.fromCharCode\<close> fits a \<^typ>\<open>char\<close>; for
  \<^verbatim>\<open>undefined\<close> it is the code unit 0.
\<close>

definition fromCharCode :: "jsval \<Rightarrow> char" where
  "fromCharCode v = (case ToNumber v of Num n \<Rightarrow> char_of n | _ \<Rightarrow> char_of (0 :: int))"

fun readLine_loop :: "nat \<Rightarrow> stream \<Rightarrow> string \<Rightarrow> ((error + string) \<times> stream) option" where
  "readLine_loop 0 s str = None"
| "readLine_loop (Suc fuel) s str =
     (case r s of
        (Inl e, s') \<Rightarrow> Some (Inl e, s')
      | (Inr byte, s') \<Rightarrow>
          if strict_eq byte (Num 10) then Some (Inr str, s')
          else if strict_eq byte Null then Some (Inr str, s')
          else readLine_loop fuel s' (str @ [fromCharCode byte]))"

definition readLine :: "nat \<Rightarrow> stream \<Rightarrow> ((error + string) \<times> stream) option" where
  "readLine fuel s =
     (case readLine_loop fuel s [] of
        None \<Rightarrow> None
      | Some (Inl e, s') \<Rightarrow> Some (Inl e, s')
      | Some (Inr str, s') \<Rightarrow> Some (Inr str, s'\<lparr>currentLine := js_inc (currentLine s')\<rparr>))"

definition ends_with_LF :: "string \<Rightarrow> bool" where
  \<comment> \<open>\<^verbatim>\<open>str.charCodeAt(str.length - 1) === 0x0A\<close>; for the empty string the code is
      \<^verbatim>\<open>NaN\<close>\<close>
  "ends_with_LF str = (case rev str of [] \<Rightarrow> False | c # _ \<Rightarrow> c = CHR 0x0A)"

fun join :: "string list \<Rightarrow> string" where
  \<comment> \<open>\<^verbatim>\<open>s.join("\n")\<close>\<close>
  "join [] = []"
| "join [x] = x"
| "join (x # y # ys) = x @ [CHR 0x0A] @ join (y # ys)"

text \<open>
  \<^verbatim>\<open>readLines(amount)\<close>. The last component of the result counts the calls of
  \<^verbatim>\<open>console.warn\<close>, the only signal of a truncated read that the code gives.
\<close>

function readLines_loop ::
  "nat \<Rightarrow> stream \<Rightarrow> string list \<Rightarrow> int \<Rightarrow> int \<Rightarrow> ((error + string) \<times> stream \<times> nat) option" where
  "readLines_loop fuel st s amount i =
     (if i < amount then
        (case readLine fuel st of
           None \<Rightarrow> None
         | Some (Inl e, st') \<Rightarrow> Some (Inl e, st', 0)
         | Some (Inr str, st') \<Rightarrow>
             if ends_with_LF str then readLines_loop fuel st' (s @ [str]) amount (i + 1)
             else Some (Inr (join (s @ [str])), st', if i + 1 = amount then 0 else 1))
      else Some (Inr (join s), st, 0))"
  by pat_completeness auto
termination
  by (relation "measure (\<lambda>(fuel, st, s, amount, i). nat (amount - i))") auto

definition readLines :: "nat \<Rightarrow> stream \<Rightarrow> int \<Rightarrow> ((error + string) \<times> stream \<times> nat) option" where
  "readLines fuel st amount = readLines_loop fuel st [] amount 0"

section \<open>The single-class version of the stream\<close>

text \<open>
  \<^verbatim>\<open>src/unnamed/part_000\<close> declares one class \<^verbatim>\<open>FileStream\<close> whose constructor
  does the work of \<^verbatim>\<open>open\<close>. The class body declares a getter with a parameter
  (\<^verbatim>\<open>newLocalOffset\<close>), which JavaScript refuses, so the file as it stands defines no
  class; the definitions below are the bodies of its constructor and of the methods
  \<^verbatim>\<open>tell\<close>, \<^verbatim>\<open>sliceChunk\<close>, \<^verbatim>\<open>readChunk\<close> and
  \<^verbatim>\<open>getChunkIndexFromOffset\<close>, prefixed \<open>part0\<close>.
\<close>

definition part0_tell :: "stream \<Rightarrow> jsval" where
  "part0_tell s = js_add Undefined (js_mul Undefined (chunk s))"

definition part0_sliceChunk :: "stream \<Rightarrow> int \<Rightarrow> error + byte list" where
  "part0_sliceChunk s index =
     (if js_gt (Num index) (lastChunk s) then Inl (ChunkBeyondBounds (Num index))
      else case blob s of
        None \<Rightarrow> Inl TypeError
      | Some b \<Rightarrow>
          (let offset = index * config_chunkSize s
           in Inr (blob_slice b offset (config_chunkSize s + offset))))"

definition part0_readChunk :: "stream \<Rightarrow> jsval \<Rightarrow> (error + unit) \<times> stream" where
  "part0_readChunk s index =
     (if js_gt index (lastChunk s) then (Inl (ChunkBeyondBounds index), s)
      else
        let s1 = s\<lparr>chunk := index, position := Num 0\<rparr> in
        case chunks s1 of
          None \<Rightarrow> (Inl TypeError, s1)
        | Some cs \<Rightarrow>
            (case readAsArrayBuffer (array_get cs (chunk s1)) of
               Inl e \<Rightarrow> (Inl e, s1)
             | Inr b \<Rightarrow> (Inr (), s1\<lparr>pending := pending s1 @ [b]\<rparr>)))"

definition part0_constructor :: "int \<Rightarrow> jsval \<Rightarrow> error + stream" where
  \<comment> \<open>\<^verbatim>\<open>new FileStream(blob, {chunkSize: c})\<close>\<close>
  "part0_constructor c v =
     (case v of
        Blob b \<Rightarrow>
          (let s1 = (new_stream c)\<lparr>cache := None, blob := Some b,
                      lastChunk := ceil_div (int (length b)) c\<rparr>
           in case new_Array (lastChunk s1) of
                None \<Rightarrow> Inl RangeError
              | Some n \<Rightarrow>
                  (let s2 = s1\<lparr>chunks := Some (replicate n (Num 0))\<rparr>
                   in case first_error (map (\<lambda>i. part0_sliceChunk s2 (int i)) [0..<n]) of
                        Some e \<Rightarrow> Inl e
                      | None \<Rightarrow>
                          (case part0_readChunk s2 (Num 0) of
                             (Inl e, s3) \<Rightarrow> Inl e
                           | (Inr u, s3) \<Rightarrow> Inr s3)))
      | _ \<Rightarrow> Inl InvalidBlob)"

definition part0_getChunkIndexFromOffset :: "stream \<Rightarrow> int \<Rightarrow> error + jsval" where
  "part0_getChunkIndexFromOffset s offset =
     (case blob s of
        None \<Rightarrow> Inl TypeError
      | Some b \<Rightarrow>
          if int (length b) < offset then Inl ChunkIndexInvalidOffset
          else Inr (ceil_div offset (config_chunkSize s)))"

section \<open>Streams used in the examples\<close>

text \<open>
  \<open>after_open c bytes\<close> is the stream once \<^verbatim>\<open>open\<close> has run on a blob of the bytes
  \<open>bytes\<close>, whether or not it raised. \<open>resident c bytes cs k pos\<close> is a stream over the
  same blob in which chunk \<open>k\<close> is held by the cache, the cursor is at \<open>pos\<close> in it and
  \<^verbatim>\<open>this.chunks\<close> is \<open>cs\<close>: the state that a completed load of chunk \<open>k\<close> would leave.
  \<open>is_Array\<close> and \<open>not_Array\<close> are the two constant values of the parameter
  \<^verbatim>\<open>isArray\<close>.
\<close>

definition after_open :: "int \<Rightarrow> byte list \<Rightarrow> stream" where
  "after_open c bytes = snd (open_blob (new_stream c) (Blob bytes))"

definition resident :: "int \<Rightarrow> byte list \<Rightarrow> jsval list \<Rightarrow> int \<Rightarrow> int \<Rightarrow> stream" where
  "resident c bytes cs k pos =
     \<lparr>config_chunkSize = c, position = Num pos, chunk = Num k, closed = False,
      cache = Some (blob_slice bytes (k * c) (c + k * c)), blob = Some bytes,
      lastChunk = ceil_div (int (length bytes)) c, chunks = Some cs,
      currentLine = Undefined, pending = []\<rparr>"

definition is_Array :: "jsarray \<Rightarrow> bool" where
  "is_Array a = True"

definition not_Array :: "jsarray \<Rightarrow> bool" where
  "not_Array a = False"

definition abc_def_text :: "byte list" where
  \<comment> \<open>the bytes of \<^verbatim>\<open>"abc\ndef\n"\<close>\<close>
  "abc_def_text = [0x61, 0x62, 0x63, 0x0A, 0x64, 0x65, 0x66, 0x0A]"

section \<open>Facts about the model\<close>

lemma tell_NaN: "tell s = NaN"
  by (simp add: tell_def js_add_def js_mul_def)

lemma EOF_cases: "EOF s = (case blob s of None \<Rightarrow> Inl TypeError | Some b \<Rightarrow> Inr False)"
  by (simp add: EOF_def tell_NaN js_gt_def split: option.splits)

lemma ceil_div_pos:
  assumes "0 < c" and "0 \<le> a"
  shows "\<exists>n. ceil_div a c = Num n \<and> 0 \<le> n \<and> n \<le> a"
proof -
  have le0: "(- a) div c \<le> 0"
    using assms by (simp add: div_nonpos_pos_le0)
  have ge: "- a \<le> (- a) div c"
  proof (cases "a = 0")
    case True
    then show ?thesis by simp
  next
    case False
    then have "- a < 0" using assms by simp
    from zdiv_mono2_neg[OF this, of 1 c] assms show ?thesis by simp
  qed
  from le0 ge show ?thesis using assms by (simp add: ceil_div_def)
qed

lemma first_error_None:
  assumes "\<And>x. x \<in> set xs \<Longrightarrow> \<not> isl x"
  shows "first_error xs = None"
  using assms
proof (induction xs)
  case Nil
  then show ?case by simp
next
  case (Cons x xs)
  from Cons.prems[of x] obtain v where "x = Inr v" by (cases x) auto
  with Cons show ?case by simp
qed

lemma sliceChunk_in_table:
  assumes "lastChunk s = Num n" and "i < n" and "blob s = Some b"
  shows "\<not> isl (sliceChunk s i)"
  using assms by (simp add: sliceChunk_def js_gt_def Let_def)

lemma readChunk_zeros:
  assumes "chunks s = Some (replicate n (Num 0))" and "lastChunk s = Num m" and "0 \<le> m"
  shows "readChunk s (Num 0) = (Inl TypeError, s\<lparr>chunk := Num 0, position := Num 0\<rparr>)"
  using assms by (simp add: readChunk_def js_gt_def Let_def array_get_def readAsArrayBuffer_def)

text \<open>
  Every chunk table that \<^verbatim>\<open>open\<close> builds holds the number 0 in each slot, so the
  first load is refused by the \<^verbatim>\<open>FileReader\<close>: \<^verbatim>\<open>open\<close> raises for every blob, and
  the cache of the stream it leaves is \<^verbatim>\<open>null\<close>.
\<close>

lemma open_blob_raises:
  assumes "0 < c" and "int (length bytes) < 2 ^ 32"
  shows "fst (open_blob (new_stream c) (Blob bytes)) = Inl TypeError"
    and "cache (snd (open_blob (new_stream c) (Blob bytes))) = None"
    and "blob (snd (open_blob (new_stream c) (Blob bytes))) = Some bytes"
proof -
  obtain n where n: "ceil_div (int (length bytes)) c = Num n" "0 \<le> n" "n \<le> int (length bytes)"
    using ceil_div_pos[OF assms(1), of "int (length bytes)"] by auto
  have na: "new_Array (Num n) = Some (nat n)"
    using n assms(2) by (simp add: new_Array_def)
  define s2 where "s2 = (new_stream c)\<lparr>cache := None, blob := Some bytes, lastChunk := Num n,
      chunks := Some (replicate (nat n) (Num 0))\<rparr>"
  have "\<And>i. i \<in> set [0..<nat n] \<Longrightarrow> \<not> isl (sliceChunk s2 (int i))"
    by (rule sliceChunk_in_table[where n = n and b = bytes]) (auto simp: s2_def)
  then have f: "first_error (map (\<lambda>i. sliceChunk s2 (int i)) [0..<nat n]) = None"
    by (intro first_error_None) auto
  have rc: "readChunk s2 (Num 0) = (Inl TypeError, s2\<lparr>chunk := Num 0, position := Num 0\<rparr>)"
    by (rule readChunk_zeros[where n = "nat n" and m = n]) (auto simp: s2_def n)
  have "open_blob (new_stream c) (Blob bytes)
          = (Inl TypeError, s2\<lparr>chunk := Num 0, position := Num 0\<rparr>)"
    using f rc by (simp add: open_blob_def Let_def n na new_stream_def s2_def)
  then show "fst (open_blob (new_stream c) (Blob bytes)) = Inl TypeError"
    and "cache (snd (open_blob (new_stream c) (Blob bytes))) = None"
    and "blob (snd (open_blob (new_stream c) (Blob bytes))) = Some bytes"
    by (simp_all add: s2_def)
qed

lemma r_null_cache:
  assumes "cache s = None" and "blob s = Some b"
  shows "r s = (Inl TypeError, s)"
  using assms by (simp add: r_def EOF_cases)

lemma r_after_open:
  assumes "0 < c" and "int (length bytes) < 2 ^ 32"
  shows "r (after_open c bytes) = (Inl TypeError, after_open c bytes)"
  unfolding after_open_def
  by (rule r_null_cache[OF open_blob_raises(2)[OF assms] open_blob_raises(3)[OF assms]])

lemma part0_tell_eq: "part0_tell s = tell s"
  by (simp add: part0_tell_def tell_def)

lemma r_not_InvalidArg: "fst (r s) \<noteq> Inl InvalidArgError"
  by (auto simp: r_def EOF_cases next_chunk_entry_def readChunk_def fetch_inc_def
        readAsArrayBuffer_def Let_def
      split: option.splits sum.splits bool.splits prod.splits if_splits jsval.splits)

lemma read_loop_not_InvalidArg:
  "fst (read_loop s a offset len n) \<noteq> Inl InvalidArgError"
proof (induction s a offset len n rule: read_loop.induct)
  case (1 s array offset len bytesRead)
  show ?case
  proof (cases "bytesRead < len")
    case False
    then show ?thesis by (subst read_loop.simps) simp
  next
    case True
    note lt = this
    show ?thesis
    proof (cases "currentByte s")
      case (Inl e)
      then have "e = TypeError" by (auto simp: currentByte_def split: option.splits)
      with Inl lt show ?thesis by (subst read_loop.simps) simp
    next
      case (Inr b)
      note cb = this
      show ?thesis
      proof (cases "not_nullish b")
        case False
        with cb lt show ?thesis by (subst read_loop.simps) simp
      next
        case True
        note nn = this
        obtain res s' where rs: "r s = (res, s')" by (cases "r s")
        show ?thesis
        proof (cases res)
          case (Inl e)
          with rs r_not_InvalidArg[of s] have "e \<noteq> InvalidArgError" by auto
          with Inl rs cb nn lt show ?thesis by (subst read_loop.simps) simp
        next
          case (Inr v)
          have "fst (read_loop s' (array(bytesRead + offset \<mapsto> v)) offset len (bytesRead + 1))
                  \<noteq> Inl InvalidArgError"
            using "1.IH"[OF lt cb nn rs[symmetric] Inr] .
          with Inr rs cb nn lt show ?thesis by (subst read_loop.simps) simp
        qed
      qed
    qed
  qed
qed

text \<open>
  What the loop of the fill read guarantees, whatever the stream: it stores only at keys
  from \<open>offset\<close> up to \<open>offset + len\<close>, the count it returns lies between the start
  count and \<open>len\<close>, and it returns less than \<open>len\<close> only where the cached chunk has
  no byte at the cursor.
\<close>

lemma read_loop_result:
  assumes "0 \<le> n"
  shows "(\<forall>k. k < offset \<or> offset + len \<le> k \<longrightarrow>
              snd (snd (read_loop s a offset len n)) k = a k) \<and>
         (\<forall>m. fst (read_loop s a offset len n) = Inr m \<longrightarrow>
              n \<le> m \<and> (m \<le> len \<or> m = n) \<and>
              (m < len \<longrightarrow>
                 (\<exists>v. currentByte (fst (snd (read_loop s a offset len n))) = Inr v
                      \<and> \<not> not_nullish v)))"
  using assms
proof (induction s a offset len n rule: read_loop.induct)
  case (1 s array offset len bytesRead)
  let ?R = "read_loop s array offset len bytesRead"
  show ?case
  proof (cases "bytesRead < len")
    case False
    then have "?R = (Inr bytesRead, s, array)" by (subst read_loop.simps) simp
    with False show ?thesis by simp
  next
    case True
    note lt = this
    show ?thesis
    proof (cases "currentByte s")
      case (Inl e)
      with lt have "?R = (Inl e, s, array)" by (subst read_loop.simps) simp
      then show ?thesis by simp
    next
      case (Inr b)
      note cb = this
      show ?thesis
      proof (cases "not_nullish b")
        case False
        with cb lt have "?R = (Inr bytesRead, s, array)" by (subst read_loop.simps) simp
        with cb False show ?thesis by simp
      next
        case True
        note nn = this
        obtain res s' where rs: "r s = (res, s')" by (cases "r s")
        show ?thesis
        proof (cases res)
          case (Inl e)
          with rs cb nn lt have "?R = (Inl e, s', array)" by (subst read_loop.simps) simp
          then show ?thesis by simp
        next
          case (Inr v)
          define a' where "a' = array(bytesRead + offset \<mapsto> v)"
          define R' where "R' = read_loop s' a' offset len (bytesRead + 1)"
          have eq: "?R = R'"
            unfolding R'_def a'_def using Inr rs cb nn lt by (subst read_loop.simps) simp
          have ih: "(\<forall>k. k < offset \<or> offset + len \<le> k \<longrightarrow> snd (snd R') k = a' k) \<and>
                    (\<forall>m. fst R' = Inr m \<longrightarrow>
                        bytesRead + 1 \<le> m \<and> (m \<le> len \<or> m = bytesRead + 1) \<and>
                        (m < len \<longrightarrow>
                           (\<exists>v. currentByte (fst (snd R')) = Inr v \<and> \<not> not_nullish v)))"
            unfolding R'_def a'_def
            using "1.IH"[OF lt cb nn rs[symmetric] Inr] "1.prems" by (simp add: fun_upd_def)
          have frame: "a' k = array k" if "k < offset \<or> offset + len \<le> k" for k
            unfolding a'_def using that lt "1.prems" by auto
          have first: "\<forall>k. k < offset \<or> offset + len \<le> k \<longrightarrow> snd (snd R') k = array k"
            using ih frame by metis
          have second: "\<forall>m. fst R' = Inr m \<longrightarrow>
                        bytesRead \<le> m \<and> (m \<le> len \<or> m = bytesRead) \<and>
                        (m < len \<longrightarrow>
                           (\<exists>v. currentByte (fst (snd R')) = Inr v \<and> \<not> not_nullish v))"
            using ih lt by force
          show ?thesis
            unfolding eq using first second by blast
        qed
      qed
    qed
  qed
qed

text \<open>
  For a positive chunk size the index that \<^verbatim>\<open>seek\<close> computes is the quotient rounded
  up: it is the index of the chunk that holds the offset only at a multiple of the chunk
  size.
\<close>

lemma newChunkIndex_rounds_up:
  assumes "blob s = Some b" and "0 < config_chunkSize s" and "offset \<le> int (length b)"
  shows "newChunkIndex s offset =
           Inr (Num (if offset mod config_chunkSize s = 0 then offset div config_chunkSize s
                     else offset div config_chunkSize s + 1))"
  using assms by (simp add: newChunkIndex_def ceil_div_def zdiv_zminus1_eq_if)

text \<open>
  A line that \<^verbatim>\<open>readLine\<close> returns never holds a line feed, since the line feed ends
  the loop before it is appended. So the test of \<^verbatim>\<open>readLines\<close> for a line that does
  not end in a line feed succeeds on the first line: \<^verbatim>\<open>readLines(amount)\<close> is one call
  of \<^verbatim>\<open>readLine\<close>, with a warning unless \<open>amount\<close> is 1.
\<close>

lemma r_value:
  assumes "r s = (Inr v, s')"
  shows "v = Undefined \<or> (\<exists>w :: byte. v = Num (uint w))"
  using assms
  by (auto simp: r_def EOF_cases next_chunk_entry_def readChunk_def fetch_inc_def u8_get_def
        readAsArrayBuffer_def Let_def
      split: option.splits sum.splits bool.splits prod.splits if_splits jsval.splits)

lemma fromCharCode_not_LF:
  assumes "v = Undefined \<or> (\<exists>w :: byte. v = Num (uint w))" and "\<not> strict_eq v (Num 10)"
  shows "fromCharCode v \<noteq> CHR 0x0A"
proof
  assume eq: "fromCharCode v = CHR 0x0A"
  from assms(1) show False
  proof
    assume "v = Undefined"
    with eq have "char_of (0 :: int) = CHR 0x0A" by (simp add: fromCharCode_def)
    then have "of_char (char_of (0 :: int)) = (of_char (CHR 0x0A) :: int)" by simp
    then show False by simp
  next
    assume "\<exists>w :: byte. v = Num (uint w)"
    then obtain w :: byte where w: "v = Num (uint w)" by blast
    with eq have "char_of (uint w) = CHR 0x0A" by (simp add: fromCharCode_def)
    then have "of_char (char_of (uint w)) = (of_char (CHR 0x0A) :: int)" by simp
    moreover have "uint w mod 256 = uint w"
      using uint_bounded[of w] by simp
    ultimately have "uint w = 10" by simp
    with w assms(2) show False by (simp add: strict_eq_def)
  qed
qed

lemma readLine_loop_no_LF:
  assumes "readLine_loop fuel s str = Some (Inr out, s')" and "CHR 0x0A \<notin> set str"
  shows "CHR 0x0A \<notin> set out"
  using assms
proof (induction fuel arbitrary: s str)
  case 0
  then show ?case by simp
next
  case (Suc fuel)
  obtain res s1 where rs: "r s = (res, s1)" by (cases "r s")
  show ?case
  proof (cases res)
    case (Inl e)
    with rs Suc.prems show ?thesis by simp
  next
    case (Inr byte)
    show ?thesis
    proof (cases "strict_eq byte (Num 10) \<or> strict_eq byte Null")
      case True
      with Inr rs Suc.prems show ?thesis by (auto split: if_splits)
    next
      case False
      with Inr rs Suc.prems(1)
      have step: "readLine_loop fuel s1 (str @ [fromCharCode byte]) = Some (Inr out, s')"
        by simp
      have "fromCharCode byte \<noteq> CHR 0x0A"
        using r_value[of s byte s1] rs Inr False by (intro fromCharCode_not_LF) auto
      with Suc.prems(2) have "CHR 0x0A \<notin> set (str @ [fromCharCode byte])" by auto
      from Suc.IH[OF step this] show ?thesis .
    qed
  qed
qed

lemma readLine_no_LF:
  assumes "readLine fuel s = Some (Inr out, s')"
  shows "\<not> ends_with_LF out"
proof -
  from assms obtain s1 where "readLine_loop fuel s [] = Some (Inr out, s1)"
    by (auto simp: readLine_def split: option.splits sum.splits prod.splits)
  from readLine_loop_no_LF[OF this] have "CHR 0x0A \<notin> set out" by simp
  then show ?thesis
    by (cases "rev out") (auto simp: ends_with_LF_def dest: arg_cong[where f = set])
qed

lemma readLines_one_line:
  assumes "0 < amount"
  shows "readLines fuel st amount =
           (case readLine fuel st of
              None \<Rightarrow> None
            | Some (Inl e, st') \<Rightarrow> Some (Inl e, st', 0)
            | Some (Inr str, st') \<Rightarrow> Some (Inr str, st', if amount = 1 then 0 else 1))"
proof (cases "readLine fuel st")
  case None
  with assms show ?thesis by (simp add: readLines_def)
next
  case (Some p)
  obtain res st' where p: "p = (res, st')" by (cases p)
  show ?thesis
  proof (cases res)
    case (Inl e)
    with Some p assms show ?thesis by (simp add: readLines_def)
  next
    case (Inr str)
    with Some p have "\<not> ends_with_LF str" by (intro readLine_no_LF) auto
    with Inr Some p assms show ?thesis by (simp add: readLines_def)
  qed
qed

section \<open>The claims\<close>

subsection \<open>C1: sequential single-byte reads\<close>

text \<open>
  Claim C1 says that for every source and every positive chunk size, calling the
  single-byte read from offset 0 until the sentinel comes back yields the bytes of the
  source in order, for a length \<open>L\<close> that is 0, below the chunk size \<open>C\<close>, equal to it, a
  larger multiple of it, or no multiple of it. The code does not do this. With
  \<open>C = 2\<close> and one source for each of the five cases, \<^verbatim>\<open>open\<close> raises a TypeError
  (lemma \<open>open_blob_raises\<close> shows this for every source), the cache of the stream it
  leaves is \<^verbatim>\<open>null\<close>, and the first \<^verbatim>\<open>r()\<close> raises a TypeError without
  returning a byte; the constructor of the single-class version raises as well.
\<close>

theorem sequential_read_raises:
  "fst (open_blob (new_stream 2) (Blob [])) = Inl TypeError \<and>
   r (after_open 2 []) = (Inl TypeError, after_open 2 []) \<and>
   fst (open_blob (new_stream 2) (Blob [7])) = Inl TypeError \<and>
   r (after_open 2 [7]) = (Inl TypeError, after_open 2 [7]) \<and>
   fst (open_blob (new_stream 2) (Blob [7, 8])) = Inl TypeError \<and>
   r (after_open 2 [7, 8]) = (Inl TypeError, after_open 2 [7, 8]) \<and>
   fst (open_blob (new_stream 2) (Blob [7, 8, 9, 10])) = Inl TypeError \<and>
   r (after_open 2 [7, 8, 9, 10]) = (Inl TypeError, after_open 2 [7, 8, 9, 10]) \<and>
   fst (open_blob (new_stream 2) (Blob [7, 8, 9])) = Inl TypeError \<and>
   r (after_open 2 [7, 8, 9]) = (Inl TypeError, after_open 2 [7, 8, 9]) \<and>
   cache (after_open 2 [7, 8, 9]) = None \<and>
   part0_constructor 2 (Blob [7, 8, 9]) = Inl TypeError"
  by code_simp

subsection \<open>C2: the chunk that seek targets\<close>

text \<open>
  Claim C2 says that \<^verbatim>\<open>seek(offset)\<close> targets the chunk \<open>floor(offset / chunkSize)\<close>
  and loads a chunk exactly when that index differs from the cached one. The code rounds
  the quotient up (lemma \<open>newChunkIndex_rounds_up\<close>). On a 4-byte source with chunk size
  2 and chunk 0 current, offset 1 lies in chunk 0, yet both versions compute index 1 and
  \<^verbatim>\<open>seek(1)\<close> calls \<^verbatim>\<open>readChunk(1)\<close>: on the stream that \<^verbatim>\<open>open\<close> leaves this
  moves the chunk field to 1 and raises, and on a stream whose chunk table holds the
  slices it starts a load of the bytes of chunk 1.
\<close>

theorem seek_targets_ceiling:
  "chunk (after_open 2 [1, 2, 3, 4]) = Num 0 \<and>
   newChunkIndex (after_open 2 [1, 2, 3, 4]) 1 = Inr (Num 1) \<and>
   part0_getChunkIndexFromOffset (after_open 2 [1, 2, 3, 4]) 1 = Inr (Num 1) \<and>
   seek (after_open 2 [1, 2, 3, 4]) 1
     = (Inl TypeError, (after_open 2 [1, 2, 3, 4])\<lparr>chunk := Num 1\<rparr>) \<and>
   seek (resident 2 [1, 2, 3, 4] [Blob [1, 2], Blob [3, 4]] 0 0) 1
     = (Inr (), (resident 2 [1, 2, 3, 4] [Blob [1, 2], Blob [3, 4]] 0 0)
                  \<lparr>position := Num 1, chunk := Num 1, pending := [[3, 4]]\<rparr>)"
  by code_simp

subsection \<open>C3: end of file\<close>

text \<open>
  Claim C3 says that end of file holds exactly when the absolute position has reached
  the length of the source, so that after \<^verbatim>\<open>seek(L)\<close> the stream reports it and the
  next single-byte read returns the sentinel instead of raising. In the code
  \<^verbatim>\<open>EOF\<close> compares \<^verbatim>\<open>tell()\<close>, which is \<^verbatim>\<open>NaN\<close>, with the size, and is never
  true. On a 4-byte source with chunk size 2, after \<^verbatim>\<open>seek(4)\<close> it is false; the next
  \<^verbatim>\<open>r()\<close> raises a TypeError on the stream that \<^verbatim>\<open>open\<close> leaves, and returns the
  byte 3 on a stream that holds chunk 1.
\<close>

theorem EOF_never_reported:
  "EOF s \<noteq> Inr True \<and>
   EOF (snd (seek (after_open 2 [1, 2, 3, 4]) 4)) = Inr False \<and>
   fst (r (snd (seek (after_open 2 [1, 2, 3, 4]) 4))) = Inl TypeError \<and>
   EOF (snd (seek (resident 2 [1, 2, 3, 4] [Blob [1, 2], Blob [3, 4]] 1 0) 4)) = Inr False \<and>
   fst (r (snd (seek (resident 2 [1, 2, 3, 4] [Blob [1, 2], Blob [3, 4]] 1 0) 4)))
     = Inr (Num 3)"
proof -
  have "EOF s \<noteq> Inr True"
    by (simp add: EOF_cases split: option.splits)
  moreover have
    "EOF (snd (seek (after_open 2 [1, 2, 3, 4]) 4)) = Inr False \<and>
     fst (r (snd (seek (after_open 2 [1, 2, 3, 4]) 4))) = Inl TypeError \<and>
     EOF (snd (seek (resident 2 [1, 2, 3, 4] [Blob [1, 2], Blob [3, 4]] 1 0) 4)) = Inr False \<and>
     fst (r (snd (seek (resident 2 [1, 2, 3, 4] [Blob [1, 2], Blob [3, 4]] 1 0) 4)))
       = Inr (Num 3)"
    by code_simp
  ultimately show ?thesis by simp
qed

subsection \<open>C4: tell after seek\<close>

text \<open>
  Claim C4 says that \<^verbatim>\<open>seek(o)\<close> followed by \<^verbatim>\<open>tell()\<close> returns \<open>o\<close> for every
  offset from 0 to the length. In both versions \<^verbatim>\<open>tell\<close> adds two properties that the
  object does not have, so it returns \<^verbatim>\<open>NaN\<close> after every seek; \<^verbatim>\<open>seek(0)\<close> on a
  4-byte source with chunk size 2 succeeds and \<^verbatim>\<open>tell()\<close> is not 0.
\<close>

theorem tell_after_seek_is_NaN:
  "tell (snd (seek s offset)) = NaN \<and>
   part0_tell (snd (seek s offset)) = NaN \<and>
   fst (seek (after_open 2 [1, 2, 3, 4]) 0) = Inr () \<and>
   \<not> strict_eq (tell (snd (seek (after_open 2 [1, 2, 3, 4]) 0))) (Num 0)"
proof -
  have "fst (seek (after_open 2 [1, 2, 3, 4]) 0) = Inr ()"
    by code_simp
  then show ?thesis
    by (simp add: tell_NaN part0_tell_eq strict_eq_def)
qed

subsection \<open>C5: advancing to the next chunk\<close>

text \<open>
  Claim C5 says that a single-byte read at the end of the cached chunk, before the end
  of the file, loads the chunk with the next index, sets the local position to 0 and
  returns the byte there. The code passes the entry \<^verbatim>\<open>this.chunks[this.chunk + 1]\<close>
  to \<^verbatim>\<open>readChunk\<close> where the index \<^verbatim>\<open>this.chunk + 1\<close> is meant. On a 4-byte source
  with chunk size 2, chunk 0 cached and the position at 2: with the chunk table that
  \<^verbatim>\<open>open\<close> builds the entry is 0, the chunk field stays 0 and the read raises; with a
  table of slices the chunk field becomes a blob and the read raises. No byte is
  returned and chunk 1 is not loaded.
\<close>

theorem r_at_chunk_end:
  "r (resident 2 [1, 2, 3, 4] [Num 0, Num 0] 0 2)
     = (Inl TypeError, resident 2 [1, 2, 3, 4] [Num 0, Num 0] 0 0) \<and>
   r (resident 2 [1, 2, 3, 4] [Blob [1, 2], Blob [3, 4]] 0 2)
     = (Inl TypeError,
        (resident 2 [1, 2, 3, 4] [Blob [1, 2], Blob [3, 4]] 0 0)\<lparr>chunk := Blob [3, 4]\<rparr>)"
  by code_simp

subsection \<open>C6: reading lines\<close>

text \<open>
  Claim C6 says that on the text \<^verbatim>\<open>"abc\ndef\n"\<close> \<^verbatim>\<open>readLines(2)\<close> returns
  \<^verbatim>\<open>"abc\ndef"\<close> without a truncation signal and \<^verbatim>\<open>readLines(3)\<close> returns the same
  text with one. In the code \<^verbatim>\<open>readLine\<close> drops the line feed, and \<^verbatim>\<open>readLines\<close>
  stops as soon as a line does not end in a line feed, that is after the first line
  (lemma \<open>readLines_one_line\<close>). On the stream that \<^verbatim>\<open>open\<close> leaves both calls
  raise a TypeError; on a stream that holds the whole text in its cache both return
  \<^verbatim>\<open>"abc"\<close> and warn once.
\<close>

theorem readLines_stops_at_first_line:
  "readLines 100 (after_open 1024 abc_def_text) 2
     = Some (Inl TypeError, after_open 1024 abc_def_text, 0) \<and>
   readLines 100 (resident 1024 abc_def_text [Num 0] 0 0) 2
     = Some (Inr ''abc'',
             (resident 1024 abc_def_text [Num 0] 0 4)\<lparr>currentLine := NaN\<rparr>, 1) \<and>
   readLines 100 (resident 1024 abc_def_text [Num 0] 0 0) 3
     = Some (Inr ''abc'',
             (resident 1024 abc_def_text [Num 0] 0 4)\<lparr>currentLine := NaN\<rparr>, 1)"
  by code_simp

subsection \<open>C7: a failed chunk load\<close>

text \<open>
  Claim C7 says that a chunk load is atomic: either the bytes of the new chunk are fully
  in the cache, or the cache and the cursor are as they were before, and the cursor
  never points into a chunk that was not loaded. The code does not do this:
  \<^verbatim>\<open>readChunk\<close> assigns the chunk field and the position before it starts the read,
  does not wait for the read, and never restores them. On the stream that \<^verbatim>\<open>open\<close>
  leaves on a 4-byte source with chunk size 2, \<^verbatim>\<open>readChunk(1)\<close> raises, the cache
  holds no chunk, and the chunk field has moved from 0 to 1. On a stream with a table of
  slices that holds chunk 0, \<^verbatim>\<open>readChunk(1)\<close> returns with the cursor at the start of
  chunk 1 while the cache still holds the bytes of chunk 0, the read of chunk 1 only
  started.
\<close>

theorem readChunk_failure_moves_cursor:
  "fst (readChunk (after_open 2 [1, 2, 3, 4]) (Num 1)) = Inl TypeError \<and>
   cache (snd (readChunk (after_open 2 [1, 2, 3, 4]) (Num 1))) = None \<and>
   chunk (after_open 2 [1, 2, 3, 4]) = Num 0 \<and>
   chunk (snd (readChunk (after_open 2 [1, 2, 3, 4]) (Num 1))) = Num 1 \<and>
   readChunk (resident 2 [1, 2, 3, 4] [Blob [1, 2], Blob [3, 4]] 0 1) (Num 1)
     = (Inr (), (resident 2 [1, 2, 3, 4] [Blob [1, 2], Blob [3, 4]] 0 1)
                  \<lparr>position := Num 0, chunk := Num 1, pending := [[3, 4]]\<rparr>) \<and>
   cache (snd (readChunk (resident 2 [1, 2, 3, 4] [Blob [1, 2], Blob [3, 4]] 0 1) (Num 1)))
     = Some [1, 2]"
  by code_simp

subsection \<open>C8: the fill read and the end of the cached chunk\<close>

text \<open>
  Claim C8 says that the three-argument read stores only at positions from \<open>offset\<close> up
  to \<open>offset + len\<close> and returns a count of at most \<open>len\<close> that is below \<open>len\<close> only
  when the end of the file was reached. The first two parts hold (lemma
  \<open>read_loop_result\<close>); the last does not. On a 4-byte source with chunk size 2 and chunk
  0 cached, a read of 4 bytes returns 2 with the cursor at the end of chunk 0, two bytes
  before the end of the file and with \<^verbatim>\<open>EOF\<close> false; the next read returns 0. On the
  stream that \<^verbatim>\<open>open\<close> leaves the same read raises a TypeError.
\<close>

theorem read3_short_at_chunk_end:
  "fst (read3 is_Array (resident 2 [1, 2, 3, 4] [Blob [1, 2], Blob [3, 4]] 0 0)
          (array_of [Num 0, Num 0, Num 0, Num 0]) 0 4) = Inr 2 \<and>
   fst (snd (read3 is_Array (resident 2 [1, 2, 3, 4] [Blob [1, 2], Blob [3, 4]] 0 0)
          (array_of [Num 0, Num 0, Num 0, Num 0]) 0 4))
     = resident 2 [1, 2, 3, 4] [Blob [1, 2], Blob [3, 4]] 0 2 \<and>
   EOF (resident 2 [1, 2, 3, 4] [Blob [1, 2], Blob [3, 4]] 0 2) = Inr False \<and>
   fst (read3 is_Array (resident 2 [1, 2, 3, 4] [Blob [1, 2], Blob [3, 4]] 0 2)
          (array_of [Num 0, Num 0, Num 0, Num 0]) 2 2) = Inr 0 \<and>
   fst (read3 is_Array (after_open 2 [1, 2, 3, 4])
          (array_of [Num 0, Num 0, Num 0, Num 0]) 0 4) = Inl TypeError"
  by code_simp

subsection \<open>C9: the arguments of the fill read\<close>

text \<open>
  Claim C9 says that the three-argument read fails with an invalid-argument error
  exactly when \<open>offset\<close> is negative, \<open>len\<close> is negative or \<open>offset + len\<close> exceeds the
  capacity of the buffer, and that then nothing is written and the cursor stays. As
  stated the claim fails: the code checks neither number. With \<open>len = -1\<close> the read
  returns 0 without an error. With a buffer of capacity 2, \<open>offset = 1\<close> and
  \<open>len = 2\<close> on a stream that holds the 4 bytes of its source, it returns 2, has stored
  at key 2 beyond the capacity, and has moved the cursor from 0 to 2.
\<close>

theorem read3_accepts_malformed:
  "read3 is_Array (after_open 2 [1, 2, 3, 4]) (array_of [Num 0, Num 0]) 0 (- 1)
     = (Inr 0, after_open 2 [1, 2, 3, 4], array_of [Num 0, Num 0]) \<and>
   fst (read3 is_Array (resident 4 [1, 2, 3, 4] [Num 0] 0 0) (array_of [Num 0, Num 0]) 1 2)
     = Inr 2 \<and>
   array_of [Num 0, Num 0] 2 = None \<and>
   snd (snd (read3 is_Array (resident 4 [1, 2, 3, 4] [Num 0] 0 0)
               (array_of [Num 0, Num 0]) 1 2)) 2
     = Some (Num 2) \<and>
   fst (snd (read3 is_Array (resident 4 [1, 2, 3, 4] [Num 0] 0 0)
               (array_of [Num 0, Num 0]) 1 2))
     = resident 4 [1, 2, 3, 4] [Num 0] 0 2"
proof -
  have "read3 is_Array (after_open 2 [1, 2, 3, 4]) (array_of [Num 0, Num 0]) 0 (- 1)
          = (Inr 0, after_open 2 [1, 2, 3, 4], array_of [Num 0, Num 0])"
    by (simp add: read3_def is_Array_def read_loop.simps)
  moreover have
    "fst (read3 is_Array (resident 4 [1, 2, 3, 4] [Num 0] 0 0) (array_of [Num 0, Num 0]) 1 2)
       = Inr 2 \<and>
     array_of [Num 0, Num 0] 2 = None \<and>
     snd (snd (read3 is_Array (resident 4 [1, 2, 3, 4] [Num 0] 0 0)
                 (array_of [Num 0, Num 0]) 1 2)) 2
       = Some (Num 2) \<and>
     fst (snd (read3 is_Array (resident 4 [1, 2, 3, 4] [Num 0] 0 0)
                 (array_of [Num 0, Num 0]) 1 2))
       = resident 4 [1, 2, 3, 4] [Num 0] 0 2"
    by code_simp
  ultimately show ?thesis by simp
qed

text \<open>
  Claim C9, amended: the three-argument read does not check \<open>offset\<close> and \<open>len\<close>. It
  raises its invalid-argument exception exactly when \<^verbatim>\<open>isArray\<close> rejects the buffer,
  and then the buffer and the stream are unchanged; for a buffer that \<^verbatim>\<open>isArray\<close>
  accepts and a \<open>len\<close> of 0 or less it returns 0, again with the buffer and the stream
  unchanged.
\<close>

theorem read3_InvalidArg_iff:
  "(fst (read3 isArray s a offset len) = Inl InvalidArgError) = (\<not> isArray a) \<and>
   (\<not> isArray a \<longrightarrow> read3 isArray s a offset len = (Inl InvalidArgError, s, a)) \<and>
   (isArray a \<and> len \<le> 0 \<longrightarrow> read3 isArray s a offset len = (Inr 0, s, a))"
  using read_loop_not_InvalidArg[of s a offset len 0]
  by (simp add: read3_def read_loop.simps)

theorem read3_InvalidArg_iff_witness:
  "\<not> not_Array (array_of [Num 0, Num 0]) \<and>
   read3 not_Array (resident 4 [1, 2, 3, 4] [Num 0] 0 0) (array_of [Num 0, Num 0]) 0 2
     = (Inl InvalidArgError, resident 4 [1, 2, 3, 4] [Num 0] 0 0, array_of [Num 0, Num 0]) \<and>
   is_Array (array_of [Num 0, Num 0]) \<and> (- 1 :: int) \<le> 0 \<and>
   read3 is_Array (resident 4 [1, 2, 3, 4] [Num 0] 0 0) (array_of [Num 0, Num 0]) 0 (- 1)
     = (Inr 0, resident 4 [1, 2, 3, 4] [Num 0] 0 0, array_of [Num 0, Num 0]) \<and>
   fst (read3 is_Array (resident 4 [1, 2, 3, 4] [Num 0] 0 0) (array_of [Num 0, Num 0]) 1 2)
     \<noteq> Inl InvalidArgError"
  using
    read3_InvalidArg_iff[of not_Array "resident 4 [1, 2, 3, 4] [Num 0] 0 0"
      "array_of [Num 0, Num 0]" 0 2]
    read3_InvalidArg_iff[of is_Array "resident 4 [1, 2, 3, 4] [Num 0] 0 0"
      "array_of [Num 0, Num 0]" 0 "- 1"]
    read3_InvalidArg_iff[of is_Array "resident 4 [1, 2, 3, 4] [Num 0] 0 0"
      "array_of [Num 0, Num 0]" 1 2]
  by (simp add: is_Array_def not_Array_def)

end
